theory Spec2Isabelle
  imports Complex_Main "HOL-Library.Word" "HOL-Library.Sublist"
begin

section \<open>Data model (tiktok\_monitor/models.py)\<close>

text \<open>
  A Python \<open>str\<close> is a sequence of Unicode code points, and \<open>len\<close> and slicing count
  code points; it is modelled as a list of code point numbers. Dictionary keys, which the
  source writes as ASCII literals, are Isabelle strings. Python integers are unbounded.
\<close>

type_synonym py_str = "nat list"

text \<open>A decoded JSON value, as \<open>execute_script\<close> hands it to Python.\<close>

datatype json =
    JNull
  | JBool bool
  | JNum int
  | JStr py_str
  | JList "json list"
  | JObj "(py_str \<times> json) list"

text \<open>The dataclass \<open>PageSnapshot\<close>, fields in the order of the source.\<close>

record PageSnapshot =
  timestamp :: py_str
  url :: py_str
  title :: py_str
  has_video :: bool
  has_error_message :: bool
  has_live_content :: bool
  element_count :: int
  video_count :: int
  html_size :: int
  is_live_ended :: bool
  has_captcha :: bool
  has_page_error :: bool
  viewer_count :: "int option"
  initial_data :: "json option"
  body_text_preview :: py_str

text \<open>The property \<open>PageSnapshot.is_healthy\<close>: four tests in the order of the source.\<close>

definition is_healthy :: "PageSnapshot \<Rightarrow> bool" where
  "is_healthy self =
     (if has_captcha self then False
      else if has_page_error self then False
      else if is_live_ended self then True
      else \<not> has_error_message self \<and> has_video self)"

text \<open>The values that \<open>PageSnapshot.to_dict\<close> stores under its keys.\<close>

datatype py_value = PyStr py_str | PyBool bool | PyInt int | PyNone

text \<open>
  \<open>PageSnapshot.to_dict\<close>: a dict literal, modelled as the association list of its items
  in the order they are written. \<open>s[:200]\<close> is \<open>take 200\<close>; an \<open>Optional[int]\<close> is
  \<open>None\<close> or an integer.
\<close>

definition to_dict :: "PageSnapshot \<Rightarrow> (string \<times> py_value) list" where
  "to_dict self =
     [(''timestamp'', PyStr (timestamp self)),
      (''url'', PyStr (url self)),
      (''title'', PyStr (title self)),
      (''has_video'', PyBool (has_video self)),
      (''has_error_message'', PyBool (has_error_message self)),
      (''has_page_error'', PyBool (has_page_error self)),
      (''has_live_content'', PyBool (has_live_content self)),
      (''is_live_ended'', PyBool (is_live_ended self)),
      (''has_captcha'', PyBool (has_captcha self)),
      (''element_count'', PyInt (element_count self)),
      (''video_count'', PyInt (video_count self)),
      (''html_size'', PyInt (html_size self)),
      (''viewer_count'', (case viewer_count self of None \<Rightarrow> PyNone | Some n \<Rightarrow> PyInt n)),
      (''has_initial_data'', PyBool (initial_data self \<noteq> None)),
      (''body_text_preview'', PyStr (take 200 (body_text_preview self)))]"

text \<open>
  The call \<open>snapshot.to_dict()\<close> seen as a method call on an object: the returned dict
  together with the object after the call. The body of the method assigns to no field of
  \<open>self\<close>, so the object after the call is the object before it.
\<close>

definition to_dict_call :: "PageSnapshot \<Rightarrow> (string \<times> py_value) list \<times> PageSnapshot" where
  "to_dict_call self = (to_dict self, self)"

text \<open>The dataclass \<open>MonitorSession\<close>.\<close>

record MonitorSession =
  username :: py_str
  live_url :: py_str
  start_time :: py_str
  end_time :: "py_str option"
  snapshots :: "PageSnapshot list"
  total_snapshots :: int
  healthy_snapshots :: int
  error_snapshots :: int

text \<open>The constructor with the defaults of the dataclass, as \<open>initialize\<close> calls it.\<close>

definition new_MonitorSession :: "py_str \<Rightarrow> py_str \<Rightarrow> py_str \<Rightarrow> MonitorSession" where
  "new_MonitorSession u l t =
     \<lparr>username = u, live_url = l, start_time = t, end_time = None, snapshots = [],
      total_snapshots = 0, healthy_snapshots = 0, error_snapshots = 0\<rparr>"

text \<open>\<open>MonitorSession.add_snapshot\<close>, returning the session after the call.\<close>

definition add_snapshot :: "MonitorSession \<Rightarrow> PageSnapshot \<Rightarrow> MonitorSession" where
  "add_snapshot self snapshot =
     (let s1 = self\<lparr>snapshots := snapshots self @ [snapshot]\<rparr>;
          s2 = s1\<lparr>total_snapshots := total_snapshots s1 + 1\<rparr>
      in if is_healthy snapshot
         then s2\<lparr>healthy_snapshots := healthy_snapshots s2 + 1\<rparr>
         else s2\<lparr>error_snapshots := error_snapshots s2 + 1\<rparr>)"

text \<open>A finite sequence of \<open>add_snapshot\<close> calls on one session.\<close>

definition add_snapshots :: "MonitorSession \<Rightarrow> PageSnapshot list \<Rightarrow> MonitorSession" where
  "add_snapshots self xs = foldl add_snapshot self xs"

section \<open>Page inspection (tiktok\_monitor/parser.py)\<close>

text \<open>
  \<open>parse_page_status\<close> sends one JavaScript program to the browser. A JavaScript string
  is a sequence of UTF-16 code units. An expression of the script either has a value or
  throws: \<open>Inr v\<close> is the value, \<open>Inl x\<close> the thrown value. Of a thrown value the script
  uses only \<open>toString()\<close>: \<open>Error_text e\<close> is a value whose \<open>toString()\<close> returns \<open>e\<close>,
  \<open>No_toString\<close> one on which the call itself throws a \<open>TypeError\<close> (\<open>null\<close>, \<open>undefined\<close>,
  an object without the method).
\<close>

type_synonym js_string = "16 word list"

datatype thrown = Error_text js_string | No_toString

type_synonym 'a js_result = "thrown + 'a"

text \<open>
  A JavaScript number as far as the script produces one from \<open>parseInt\<close>: a finite
  double, given by its value, or \<open>Infinity\<close>.
\<close>

datatype js_number = Number_value rat | Positive_infinity

text \<open>
  The two built-ins of the language that the script calls on data of the page and whose
  tables and rounding are not part of the repository, taken as parameters:
  \<open>String.prototype.toLowerCase\<close>, and \<open>parseInt\<close> on a match of \<open>/\d+/\<close>, a string of
  ASCII digits, which returns the number as a double.
\<close>

record builtins =
  toLowerCase :: "js_string \<Rightarrow> js_string"
  parseInt :: "js_string \<Rightarrow> js_number"

definition js_bind :: "'a js_result \<Rightarrow> ('a \<Rightarrow> 'b js_result) \<Rightarrow> 'b js_result" where
  "js_bind m f = (case m of Inl e \<Rightarrow> Inl e | Inr v \<Rightarrow> f v)"

text \<open>\<open>a || b\<close> on booleans: \<open>b\<close> is evaluated only when \<open>a\<close> is false.\<close>

definition js_or :: "bool js_result \<Rightarrow> bool js_result \<Rightarrow> bool js_result" where
  "js_or a b = (case a of Inl e \<Rightarrow> Inl e | Inr v \<Rightarrow> (if v then Inr True else b))"

text \<open>An ASCII literal of the script as code units.\<close>

definition js_ascii :: "string \<Rightarrow> js_string" where
  "js_ascii s = map of_char s"

text \<open>\<open>String.prototype.includes\<close>: the needle occurs somewhere in the string.\<close>

fun js_includes :: "js_string \<Rightarrow> js_string \<Rightarrow> bool" where
  "js_includes [] needle = (needle = [])"
| "js_includes (c # s) needle = (prefix needle (c # s) \<or> js_includes s needle)"

text \<open>The CSS selectors that the script passes to \<open>querySelector\<close> and \<open>querySelectorAll\<close>.\<close>

datatype selector =
    Tag string \<comment> \<open>\<open>video\<close>\<close>
  | Class_contains string \<comment> \<open>\<open>[class*="..."]\<close>\<close>
  | Id_contains string \<comment> \<open>\<open>[id*="..."]\<close>\<close>
  | Iframe_src_contains string \<comment> \<open>\<open>iframe[src*="..."]\<close>\<close>
  | Universal \<comment> \<open>\<open>*\<close>\<close>

text \<open>
  The page as the script reads it. Every read may throw. \<open>querySelector\<close> tells whether
  an element matches (the script only tests the result with \<open>!!\<close>), \<open>querySelectorAll_length\<close>
  is the \<open>length\<close> of the node list, and \<open>viewer_innerTexts\<close> lists the \<open>innerText\<close> of the
  elements matching \<open>[class*="viewer"]\<close> in document order, \<open>None\<close> for an element whose
  \<open>innerText\<close> is undefined (calling \<open>match\<close> on it throws).
\<close>

record page_view =
  location_href :: "js_string js_result"
  document_title :: "js_string js_result"
  body_innerText :: "js_string js_result"
  querySelector :: "selector \<Rightarrow> bool js_result"
  querySelectorAll_length :: "selector \<Rightarrow> nat js_result"
  viewer_innerTexts :: "js_string option list js_result"

text \<open>The object that the script returns; \<open>status_error\<close> is its optional key \<open>error\<close>.\<close>

record page_status =
  status_url :: js_string
  status_title :: js_string
  hasVideo :: bool
  videoCount :: nat
  hasErrorMessage :: bool
  hasPageError :: bool
  isLiveEnded :: bool
  hasLiveContent :: bool
  hasCaptcha :: bool
  elementCount :: nat
  viewerCount :: "js_number option"
  bodyTextPreview :: js_string
  status_error :: "js_string option"

text \<open>\<open>getBodyText\<close>: \<open>document.body.innerText || ''\<close>, and \<open>''\<close> when the read throws.\<close>

definition getBodyText :: "page_view \<Rightarrow> js_string" where
  "getBodyText p = (case body_innerText p of Inl e \<Rightarrow> [] | Inr t \<Rightarrow> t)"

text \<open>\<open>hasErrorMessage\<close>: two text markers; nothing in the expression can throw.\<close>

definition hasErrorMessage_signal :: "js_string \<Rightarrow> bool" where
  "hasErrorMessage_signal bodyText =
     (js_includes bodyText [0x5C1D, 0x8BD5, 0x5176, 0x5B83, 0x6D4F, 0x89C8, 0x5668] \<or>
      js_includes bodyText (js_ascii ''try another browser''))"

text \<open>\<open>hasPageError\<close>: six text markers inside a function with its own \<open>try\<close>.\<close>

definition hasPageError_signal :: "js_string \<Rightarrow> bool" where
  "hasPageError_signal bodyText =
     (js_includes bodyText [0x6211, 0x4EEC, 0x9047, 0x5230, 0x4E86, 0x4E00, 0x4E9B, 0x95EE, 0x9898] \<or>
      js_includes bodyText [0x5F88, 0x62B1, 0x6B49, 0x9020, 0x6210, 0x4E0D, 0x4FBF] \<or>
      js_includes bodyText [0x8BF7, 0x7A0D, 0x540E, 0x91CD, 0x8BD5] \<or>
      js_includes bodyText (js_ascii ''Something went wrong'') \<or>
      js_includes bodyText (js_ascii ''We encountered an issue'') \<or>
      js_includes bodyText (js_ascii ''Please try again''))"

definition isLiveEnded_signal :: "js_string \<Rightarrow> bool" where
  "isLiveEnded_signal bodyText =
     (js_includes bodyText [0x76F4, 0x64AD, 0x5DF2, 0x7ED3, 0x675F] \<or>
      js_includes bodyText (js_ascii ''Live ended''))"

text \<open>\<open>hasLiveContent\<close>: two queries joined by \<open>||\<close>, outside any inner \<open>try\<close>.\<close>

definition hasLiveContent_expr :: "page_view \<Rightarrow> bool js_result" where
  "hasLiveContent_expr p =
     js_or (querySelector p (Class_contains ''live'')) (querySelector p (Class_contains ''Live''))"

text \<open>
  \<open>hasCaptcha\<close>. Both constants \<open>hasTextKeyword\<close> and \<open>hasCaptchaElement\<close> are computed
  before they are joined, so a throwing query is reached even when a keyword was found;
  the \<open>catch\<close> of the function then returns \<open>false\<close>.
\<close>

definition hasTextKeyword :: "js_string \<Rightarrow> bool" where
  "hasTextKeyword bodyTextLower =
     (js_includes bodyTextLower [0x9A8C, 0x8BC1] \<or>
      js_includes bodyTextLower (js_ascii ''captcha'') \<or>
      js_includes bodyTextLower (js_ascii ''verify'') \<or>
      js_includes bodyTextLower [0x6ED1, 0x52A8, 0x9A8C, 0x8BC1] \<or>
      js_includes bodyTextLower (js_ascii ''slider''))"

definition hasCaptchaElement :: "page_view \<Rightarrow> bool js_result" where
  "hasCaptchaElement p =
     js_or (querySelector p (Class_contains ''captcha''))
    (js_or (querySelector p (Class_contains ''verify''))
    (js_or (querySelector p (Id_contains ''captcha''))
    (js_or (querySelector p (Id_contains ''verify''))
    (js_or (querySelector p (Iframe_src_contains ''captcha''))
           (querySelector p (Iframe_src_contains ''verify''))))))"

definition hasCaptcha_signal :: "builtins \<Rightarrow> page_view \<Rightarrow> js_string \<Rightarrow> bool" where
  "hasCaptcha_signal B p bodyText =
     (case hasCaptchaElement p of
        Inl e \<Rightarrow> False
      | Inr element \<Rightarrow> hasTextKeyword (toLowerCase B bodyText) \<or> element)"

text \<open>
  \<open>viewerCount\<close>: the first element whose text has a match of \<open>/\d+/\<close> decides. The match
  is the leftmost maximal run of ASCII digits, and \<open>parseInt\<close> turns it into a number.
\<close>

definition is_digit :: "16 word \<Rightarrow> bool" where
  "is_digit c = (0x30 \<le> c \<and> c \<le> 0x39)"

fun match_digits :: "js_string \<Rightarrow> js_string option" where
  "match_digits [] = None"
| "match_digits (c # s) = (if is_digit c then Some (takeWhile is_digit (c # s)) else match_digits s)"

fun viewerCount_loop :: "builtins \<Rightarrow> js_string option list \<Rightarrow> js_number option js_result" where
  "viewerCount_loop B [] = Inr None"
| "viewerCount_loop B (None # elements) = Inl (Error_text (js_ascii ''TypeError''))"
| "viewerCount_loop B (Some innerText # elements) =
     (case match_digits innerText of
        Some m \<Rightarrow> Inr (Some (parseInt B m))
      | None \<Rightarrow> viewerCount_loop B elements)"

definition viewerCount_signal :: "builtins \<Rightarrow> page_view \<Rightarrow> js_number option" where
  "viewerCount_signal B p =
     (case js_bind (viewer_innerTexts p) (viewerCount_loop B) of Inl e \<Rightarrow> None | Inr v \<Rightarrow> v)"

text \<open>
  \<open>bodyTextPreview\<close>: \<open>bodyText.substring(0, 500)\<close>, then every code unit matched by
  \<open>/[\x00-\x1F\x7F-\x9F]/g\<close> replaced by a space.
\<close>

definition is_control :: "16 word \<Rightarrow> bool" where
  "is_control c = (c \<le> 0x1F \<or> (0x7F \<le> c \<and> c \<le> 0x9F))"

definition bodyTextPreview_signal :: "js_string \<Rightarrow> js_string" where
  "bodyTextPreview_signal bodyText =
     map (\<lambda>c. if is_control c then 0x20 else c) (take 500 bodyText)"

text \<open>
  The \<open>try\<close> block of the script: the object literal, its properties evaluated in the
  order written. The properties that cannot throw are written in place; the others are
  sequenced so that the first throw leaves the block.
\<close>

definition try_block :: "builtins \<Rightarrow> page_view \<Rightarrow> page_status js_result" where
  "try_block B p =
     (let bodyText = getBodyText p in
      js_bind (location_href p) (\<lambda>href.
      js_bind (document_title p) (\<lambda>doc_title.
      js_bind (querySelector p (Tag ''video'')) (\<lambda>video.
      js_bind (querySelectorAll_length p (Tag ''video'')) (\<lambda>videos.
      js_bind (hasLiveContent_expr p) (\<lambda>live.
      js_bind (querySelectorAll_length p Universal) (\<lambda>elements.
        Inr \<lparr>status_url = href,
             status_title = doc_title,
             hasVideo = video,
             videoCount = videos,
             hasErrorMessage = hasErrorMessage_signal bodyText,
             hasPageError = hasPageError_signal bodyText,
             isLiveEnded = isLiveEnded_signal bodyText,
             hasLiveContent = live,
             hasCaptcha = hasCaptcha_signal B p bodyText,
             elementCount = elements,
             viewerCount = viewerCount_signal B p,
             bodyTextPreview = bodyTextPreview_signal bodyText,
             status_error = None\<rparr>)))))))"



text \<open>
  The Python side. \<open>execute_script\<close> raises when the channel to the browser is broken
  and when the script itself throws; \<open>parse_page_status\<close> turns every exception into
  \<open>ParserError\<close>. The status is kept as the script built it.
\<close>

datatype py_error = ParserError | CollectionError




section \<open>Interaction polling (hooks.py, collector.py)\<close>

text \<open>
  What \<open>execute_script("return window.__tiktok_live_interactions || [];")\<close> does in one
  poll: it raises, or it returns the captured list.
\<close>

datatype script_outcome = Script_raises | Script_returns "json list"

text \<open>\<open>JavaScriptHook.get_live_interactions\<close>: the \<open>except\<close> clause returns \<open>[]\<close>.\<close>

definition get_live_interactions :: "script_outcome \<Rightarrow> json list" where
  "get_live_interactions r = (case r of Script_raises \<Rightarrow> [] | Script_returns interactions \<Rightarrow> interactions)"

text \<open>The Python slice \<open>xs[n:]\<close>; a negative \<open>n\<close> counts from the end.\<close>

definition py_slice_from :: "'a list \<Rightarrow> int \<Rightarrow> 'a list" where
  "py_slice_from xs n = (if n < 0 then drop (nat (int (length xs) + n)) xs else drop (nat n) xs)"

section \<open>The collector (tiktok\_monitor/collector.py)\<close>

text \<open>
  The fields of \<open>LiveCollector\<close> that the collection cycle and the interaction poll read
  or write. \<open>hooks\<close> tells whether \<open>self.hooks\<close> is set.
\<close>

record LiveCollector =
  hooks :: bool
  session :: "MonitorSession option"
  live_has_ended :: bool
  processed_interaction_count :: int
  page_error_retry_count :: int
  max_page_error_retries :: int

text \<open>\<open>LiveCollector.__init__\<close>.\<close>

definition new_LiveCollector :: LiveCollector where
  "new_LiveCollector =
     \<lparr>hooks = False, session = None, live_has_ended = False,
      processed_interaction_count = 0, page_error_retry_count = 0,
      max_page_error_retries = 3\<rparr>"

text \<open>The collector after \<open>initialize\<close> and \<open>prepare\<close> have returned.\<close>

definition prepared_LiveCollector :: "py_str \<Rightarrow> py_str \<Rightarrow> py_str \<Rightarrow> LiveCollector" where
  "prepared_LiveCollector u l t =
     new_LiveCollector\<lparr>session := Some (new_MonitorSession u l t), hooks := True\<rparr>"

text \<open>
  \<open>process_live_interactions\<close>. The first component is the sequence of interactions
  handed to \<open>_display_interaction\<close>, in order; \<open>_display_interaction\<close> catches its own
  exceptions, so the loop always reaches the update of the counter.
\<close>

definition process_live_interactions :: "LiveCollector \<Rightarrow> script_outcome \<Rightarrow> json list \<times> LiveCollector" where
  "process_live_interactions self r =
     (if \<not> hooks self then ([], self)
      else
        (let all_interactions = get_live_interactions r;
             new_interactions = py_slice_from all_interactions (processed_interaction_count self)
         in (new_interactions,
             self\<lparr>processed_interaction_count := int (length all_interactions)\<rparr>)))"

text \<open>A sequence of polls, one after the other: the batches displayed, and the collector.\<close>

fun polls :: "LiveCollector \<Rightarrow> script_outcome list \<Rightarrow> json list list \<times> LiveCollector" where
  "polls self [] = ([], self)"
| "polls self (r # rs) =
     (let (batch, self1) = process_live_interactions self r;
          (batches, self2) = polls self1 rs
      in (batch # batches, self2))"

text \<open>
  Successive reads of a captured sequence that only grows by appending: each read is a
  prefix of the next one.
\<close>

fun grows_by_appending :: "'a list list \<Rightarrow> bool" where
  "grows_by_appending [] = True"
| "grows_by_appending [r] = True"
| "grows_by_appending (r # r' # rs) = (prefix r r' \<and> grows_by_appending (r' # rs))"

text \<open>What the collection cycle does to the browser and to the clock.\<close>

datatype effect = Driver_refresh | Sleep nat | Install_all_hooks | Inject_data_extractor

text \<open>
  \<open>CaptchaHandler.wait_for_solution\<close>. The list gives, for each evaluation of the loop
  condition, the value of \<open>time.time() - start_time\<close> in seconds and the flag
  \<open>captcha_solved\<close> as the iteration reads it. \<open>None\<close>: the list ended before the loop did.
  The result carries the \<open>time.sleep(1)\<close> calls made.
\<close>

fun wait_for_solution :: "int \<Rightarrow> (rat \<times> bool) list \<Rightarrow> (bool \<times> effect list) option" where
  "wait_for_solution timeout [] = None"
| "wait_for_solution timeout ((elapsed, captcha_solved) # later) =
     (if elapsed < of_int timeout then
        (if captcha_solved then Some (True, [])
         else map_option (\<lambda>(solved, sleeps). (solved, Sleep 1 # sleeps))
                (wait_for_solution timeout later))
      else Some (False, []))"


text \<open>Some iteration inside the window of \<open>timeout\<close> seconds reads the flag as set.\<close>

definition solved_in_window :: "int \<Rightarrow> (rat \<times> bool) list \<Rightarrow> bool" where
  "solved_in_window timeout clock = list_ex (\<lambda>(elapsed, flag). elapsed < of_int timeout \<and> flag) clock"

text \<open>
  The readings of a loop that evaluates its condition at the elapsed times \<open>ts\<close> when
  the click that sets \<open>captcha_solved\<close> is executed \<open>arrival\<close> seconds after \<open>start_time\<close>.
\<close>

definition flag_readings :: "rat \<Rightarrow> rat list \<Rightarrow> (rat \<times> bool) list" where
  "flag_readings arrival ts = map (\<lambda>elapsed. (elapsed, arrival \<le> elapsed)) ts"


text \<open>
  What one call of \<open>_handle_captcha\<close> meets: whether a call other than the two modelled
  ones raises (creating or resetting the handler, starting the API server), what
  \<open>capture_captcha_image\<close> returns, and the clock of the wait.
\<close>

record captcha_episode =
  handler_raises :: bool
  capture_captcha_image :: bool
  solution_clock :: "(rat \<times> bool) list"

text \<open>\<open>_handle_captcha\<close>; its \<open>except\<close> clause returns \<open>False\<close>.\<close>

definition handle_captcha :: "int \<Rightarrow> captcha_episode \<Rightarrow> (bool \<times> effect list) option" where
  "handle_captcha timeout ep =
     (if handler_raises ep then Some (False, [])
      else if \<not> capture_captcha_image ep then Some (False, [])
      else (case wait_for_solution timeout (solution_clock ep) of
              None \<Rightarrow> None
            | Some (solved, sleeps) \<Rightarrow>
                if solved then Some (True, sleeps @ [Sleep 3]) else Some (False, sleeps)))"

text \<open>
  What one pass through the body of \<open>collect_once\<close> meets: the result of
  \<open>self.parser.create_snapshot()\<close>, whether \<open>driver.refresh()\<close> raises, and the captcha
  episode, each used only on the branch that reaches it.
\<close>

record cycle =
  create_snapshot :: "py_error + PageSnapshot"
  refresh_raises :: bool
  captcha :: captcha_episode

text \<open>
  How one pass ends: with a \<open>return\<close> of a boolean, with \<open>CollectionError\<close> raised by the
  \<open>except\<close> clause, or in the recursive call \<open>return self.collect_once()\<close>.
\<close>

datatype outcome = Return bool | Raise py_error

datatype step = Done outcome | Recurse

text \<open>The block \<open>if self.hooks: ...\<close> that follows the refresh.\<close>

definition reinstall_hooks :: "LiveCollector \<Rightarrow> effect list" where
  "reinstall_hooks self = (if hooks self then [Install_all_hooks, Inject_data_extractor] else [])"

text \<open>
  The body of \<open>collect_once\<close> up to its recursive call. \<open>_handle_captcha\<close> is called with
  its default timeout of 300 seconds. Installing the hooks and injecting the extractor
  catch their own exceptions.
\<close>

definition collect_step :: "LiveCollector \<Rightarrow> cycle \<Rightarrow> (step \<times> LiveCollector \<times> effect list) option" where
  "collect_step self cy =
     (case create_snapshot cy of
        Inl e \<Rightarrow> Some (Done (Raise CollectionError), self, [])
      | Inr snapshot \<Rightarrow>
          if has_page_error snapshot then
            (if page_error_retry_count self < max_page_error_retries self then
               (let self1 = self\<lparr>page_error_retry_count := page_error_retry_count self + 1\<rparr>
                in if refresh_raises cy then Some (Done (Raise CollectionError), self1, [])
                   else Some (Recurse, self1, [Driver_refresh, Sleep 5] @ reinstall_hooks self1))
             else Some (Done (Return False), self, []))
          else
            (let self2 = self\<lparr>page_error_retry_count := 0\<rparr>
             in if has_captcha snapshot then
                  (case handle_captcha 300 (captcha cy) of
                     None \<Rightarrow> None
                   | Some (solved, sleeps) \<Rightarrow>
                       if solved then Some (Recurse, self2, sleeps)
                       else Some (Done (Return False), self2, sleeps))
                else
                  (case session self2 of
                     None \<Rightarrow> Some (Done (Raise CollectionError), self2, [])
                   | Some s \<Rightarrow>
                       (let self3 = self2\<lparr>session := Some (add_snapshot s snapshot)\<rparr>
                        in if is_live_ended snapshot
                           then Some (Done (Return False), self3\<lparr>live_has_ended := True\<rparr>, [])
                           else Some (Done (Return (is_healthy snapshot)), self3, [])))))"

text \<open>A pass whose snapshot was built and shows the page error.\<close>

definition page_error_cycle :: "cycle \<Rightarrow> bool" where
  "page_error_cycle cy = (case create_snapshot cy of Inl e \<Rightarrow> False | Inr snapshot \<Rightarrow> has_page_error snapshot)"

text \<open>
  \<open>collect_once\<close>: passes through the body until one ends the call. \<open>None\<close>: the list of
  cycles ended before the call did. The \<open>except\<close> clause of an outer call wraps the
  \<open>CollectionError\<close> of an inner one in another \<open>CollectionError\<close>.
\<close>

fun collect_once :: "LiveCollector \<Rightarrow> cycle list \<Rightarrow> (outcome \<times> LiveCollector \<times> effect list) option" where
  "collect_once self [] = None"
| "collect_once self (cy # cycles) =
     (case collect_step self cy of
        None \<Rightarrow> None
      | Some (Done result, self1, effects) \<Rightarrow> Some (result, self1, effects)
      | Some (Recurse, self1, effects) \<Rightarrow>
          map_option (\<lambda>(result, self2, effects2). (result, self2, effects @ effects2))
            (collect_once self1 cycles))"

text \<open>
  Between the collector before a call and the collector after it: the session gained
  exactly one snapshot, built in one of the passes and showing neither the page error nor
  the captcha.
\<close>

definition appended :: "LiveCollector \<Rightarrow> LiveCollector \<Rightarrow> cycle list \<Rightarrow> bool" where
  "appended c c' cycles \<longleftrightarrow>
     (\<exists>ss s. session c = Some ss \<and> session c' = Some (add_snapshot ss s) \<and>
        Inr s \<in> set (map create_snapshot cycles) \<and> \<not> has_page_error s \<and> \<not> has_captcha s)"

section \<open>Example values\<close>

text \<open>Concrete snapshots on which the theorems below are instantiated.\<close>

definition example_snapshot :: PageSnapshot where
  "example_snapshot =
     \<lparr>timestamp = [], url = [], title = [], has_video = True, has_error_message = False,
      has_live_content = True, element_count = 1200, video_count = 1, html_size = 50000,
      is_live_ended = False, has_captcha = False, has_page_error = False,
      viewer_count = Some 15, initial_data = None, body_text_preview = replicate 500 97\<rparr>"

definition captcha_snapshot :: PageSnapshot where
  "captcha_snapshot = example_snapshot\<lparr>has_captcha := True\<rparr>"

definition page_error_snapshot :: PageSnapshot where
  "page_error_snapshot = example_snapshot\<lparr>has_page_error := True\<rparr>"

definition ended_snapshot :: PageSnapshot where
  "ended_snapshot = example_snapshot\<lparr>is_live_ended := True, has_video := False\<rparr>"

definition long_preview_snapshot :: PageSnapshot where
  "long_preview_snapshot =
     example_snapshot\<lparr>viewer_count := None, initial_data := Some (JObj []),
       body_text_preview := replicate 200 97 @ replicate 300 98\<rparr>"

text \<open>Three captured interactions, as the in-page observer pushes them.\<close>

definition py_ascii :: "string \<Rightarrow> py_str" where
  "py_ascii s = map of_char s"

definition interaction :: "string \<Rightarrow> string \<Rightarrow> string \<Rightarrow> string \<Rightarrow> json" where
  "interaction ts ty user content =
     JObj [(py_ascii ''timestamp'', JStr (py_ascii ts)), (py_ascii ''type'', JStr (py_ascii ty)),
           (py_ascii ''username'', JStr (py_ascii user)), (py_ascii ''content'', JStr (py_ascii content))]"

definition chat1 :: json where
  "chat1 = interaction ''2024-01-01T10:00:00.000Z'' ''chat'' ''ann'' ''hello''"

definition gift2 :: json where
  "gift2 = interaction ''2024-01-01T10:00:01.000Z'' ''gift'' ''bob'' ''rose''"

definition like3 :: json where
  "like3 = interaction ''2024-01-01T10:00:02.000Z'' ''like'' ''cy'' ''liked''"

text \<open>A collector after \<open>initialize\<close> and \<open>prepare\<close>, about to poll.\<close>

definition polling_collector :: LiveCollector where
  "polling_collector = prepared_LiveCollector [] [] []"

text \<open>Passes of the collection cycle: one per snapshot, with a refresh that works.\<close>

definition quiet_episode :: captcha_episode where
  "quiet_episode = \<lparr>handler_raises = False, capture_captcha_image = True, solution_clock = []\<rparr>"

definition cycle_of :: "PageSnapshot \<Rightarrow> cycle" where
  "cycle_of s = \<lparr>create_snapshot = Inr s, refresh_raises = False, captcha = quiet_episode\<rparr>"

definition running_collector :: LiveCollector where
  "running_collector = prepared_LiveCollector [] [] []"

text \<open>
  Two captcha episodes: the flag is read as set after two seconds; the flag is set only
  when the window of 300 seconds is over.
\<close>

definition solved_episode :: captcha_episode where
  "solved_episode =
     \<lparr>handler_raises = False, capture_captcha_image = True,
      solution_clock = [(0, False), (1, False), (2, True)]\<rparr>"



definition captcha_cycle :: "captcha_episode \<Rightarrow> cycle" where
  "captcha_cycle ep = \<lparr>create_snapshot = Inr captcha_snapshot, refresh_raises = False, captcha = ep\<rparr>"

definition one_snapshot_collector :: LiveCollector where
  "one_snapshot_collector =
     running_collector\<lparr>session := Some (add_snapshot (new_MonitorSession [] [] []) example_snapshot)\<rparr>"


definition decimal_value :: "js_string \<Rightarrow> nat" where
  "decimal_value digits = foldl (\<lambda>n c. 10 * n + (unat c - 48)) 0 digits"

fun bit_length :: "nat \<Rightarrow> nat" where
  "bit_length n = (if n = 0 then 0 else Suc (bit_length (n div 2)))"

declare bit_length.simps [simp del]

definition nearest_double :: "nat \<Rightarrow> js_number" where
  "nearest_double n =
     (if n < 2 ^ 53 then Number_value (of_nat n)
      else
        (let e = bit_length n - 53;
             q = n div 2 ^ e;
             r = n mod 2 ^ e;
             q' = (if 2 ^ e < 2 * r \<or> (2 * r = 2 ^ e \<and> odd q) then q + 1 else q)
         in if 2 ^ 1024 \<le> q' * 2 ^ e then Positive_infinity
            else Number_value (of_nat (q' * 2 ^ e))))"

definition decimal_parseInt :: "js_string \<Rightarrow> js_number" where
  "decimal_parseInt digits = nearest_double (decimal_value digits)"














section \<open>Snapshot health\<close>

lemma is_healthy_captcha: "has_captcha s \<Longrightarrow> \<not> is_healthy s"
  by (simp add: is_healthy_def)

lemma is_healthy_page_error: "has_page_error s \<Longrightarrow> \<not> is_healthy s"
  by (simp add: is_healthy_def)

text \<open>
  C1. \<open>is_healthy\<close> depends on the five fields \<open>has_captcha\<close>, \<open>has_page_error\<close>,
  \<open>is_live_ended\<close>, \<open>has_error_message\<close> and \<open>has_video\<close> only (two snapshots that agree
  on them have the same health, whatever their other fields hold), it is decided in that
  priority order, and a snapshot with a captcha is never healthy.
\<close>

theorem is_healthy_priority:
  "(has_captcha s = has_captcha s' \<and> has_page_error s = has_page_error s' \<and>
    is_live_ended s = is_live_ended s' \<and> has_error_message s = has_error_message s' \<and>
    has_video s = has_video s' \<longrightarrow> is_healthy s = is_healthy s')
   \<and> (has_captcha s \<longrightarrow> \<not> is_healthy s)
   \<and> (\<not> has_captcha s \<and> has_page_error s \<longrightarrow> \<not> is_healthy s)
   \<and> (\<not> has_captcha s \<and> \<not> has_page_error s \<and> is_live_ended s \<longrightarrow> is_healthy s)
   \<and> (\<not> has_captcha s \<and> \<not> has_page_error s \<and> \<not> is_live_ended s \<longrightarrow>
        is_healthy s = (\<not> has_error_message s \<and> has_video s))"
  by (simp add: is_healthy_def)

theorem is_healthy_priority_witness:
  "has_captcha captcha_snapshot \<and> \<not> is_healthy captcha_snapshot
   \<and> has_video captcha_snapshot \<and> \<not> has_error_message captcha_snapshot
   \<and> is_healthy (ended_snapshot\<lparr>url := [104]\<rparr>) = is_healthy ended_snapshot
   \<and> is_healthy ended_snapshot \<and> \<not> has_video ended_snapshot"
  using is_healthy_priority [of captcha_snapshot captcha_snapshot]
    is_healthy_priority [of "ended_snapshot\<lparr>url := [104]\<rparr>" ended_snapshot]
  by (simp add: is_healthy_def captcha_snapshot_def ended_snapshot_def example_snapshot_def)

section \<open>Session counters\<close>

lemma add_snapshot_total: "total_snapshots (add_snapshot s x) = total_snapshots s + 1"
  by (simp add: add_snapshot_def Let_def)

lemma add_snapshot_snapshots: "snapshots (add_snapshot s x) = snapshots s @ [x]"
  by (simp add: add_snapshot_def Let_def)

lemma add_snapshot_healthy:
  "healthy_snapshots (add_snapshot s x) = healthy_snapshots s + (if is_healthy x then 1 else 0)"
  by (simp add: add_snapshot_def Let_def)

lemma add_snapshot_error:
  "error_snapshots (add_snapshot s x) = error_snapshots s + (if is_healthy x then 0 else 1)"
  by (simp add: add_snapshot_def Let_def)

lemma add_snapshots_Nil: "add_snapshots s [] = s"
  by (simp add: add_snapshots_def)

lemma add_snapshots_Cons: "add_snapshots s (x # xs) = add_snapshots (add_snapshot s x) xs"
  by (simp add: add_snapshots_def)

lemma add_snapshots_total:
  "total_snapshots (add_snapshots s xs) = total_snapshots s + int (length xs)"
  by (induction xs arbitrary: s) (simp_all add: add_snapshots_Nil add_snapshots_Cons add_snapshot_total)

lemma add_snapshots_snapshots: "snapshots (add_snapshots s xs) = snapshots s @ xs"
  by (induction xs arbitrary: s) (simp_all add: add_snapshots_Nil add_snapshots_Cons add_snapshot_snapshots)

lemma add_snapshots_healthy:
  "healthy_snapshots (add_snapshots s xs) = healthy_snapshots s + int (length (filter is_healthy xs))"
  by (induction xs arbitrary: s) (simp_all add: add_snapshots_Nil add_snapshots_Cons add_snapshot_healthy)

lemma add_snapshots_error:
  "error_snapshots (add_snapshots s xs) =
     error_snapshots s + int (length (filter (\<lambda>x. \<not> is_healthy x) xs))"
  by (induction xs arbitrary: s) (simp_all add: add_snapshots_Nil add_snapshots_Cons add_snapshot_error)

lemma filter_split_length:
  "int (length xs) = int (length (filter P xs)) + int (length (filter (\<lambda>x. \<not> P x) xs))"
  by (induction xs) simp_all

text \<open>
  C4. A sequence of \<open>add_snapshot\<close> calls keeps \<open>total_snapshots = healthy_snapshots +
  error_snapshots\<close> and keeps the length of \<open>snapshots\<close> equal to \<open>total_snapshots\<close>; both
  hold of a session as the constructor makes it. The snapshots are stored in the order of
  the calls. One call adds the snapshot at the end, adds 1 to \<open>total_snapshots\<close>, and adds
  1 to \<open>healthy_snapshots\<close> when the snapshot is healthy and to \<open>error_snapshots\<close>
  otherwise, leaving the other of the two alone.
\<close>

theorem add_snapshot_counters:
  "(total_snapshots s = healthy_snapshots s + error_snapshots s \<and>
    int (length (snapshots s)) = total_snapshots s \<longrightarrow>
      total_snapshots (add_snapshots s xs) =
        healthy_snapshots (add_snapshots s xs) + error_snapshots (add_snapshots s xs) \<and>
      int (length (snapshots (add_snapshots s xs))) = total_snapshots (add_snapshots s xs))
   \<and> total_snapshots (new_MonitorSession u l t) =
       healthy_snapshots (new_MonitorSession u l t) + error_snapshots (new_MonitorSession u l t)
   \<and> int (length (snapshots (new_MonitorSession u l t))) = total_snapshots (new_MonitorSession u l t)
   \<and> snapshots (add_snapshots (new_MonitorSession u l t) xs) = xs
   \<and> snapshots (add_snapshots s xs) = snapshots s @ xs
   \<and> snapshots (add_snapshot s x) = snapshots s @ [x]
   \<and> total_snapshots (add_snapshot s x) = total_snapshots s + 1
   \<and> (is_healthy x \<longrightarrow>
        healthy_snapshots (add_snapshot s x) = healthy_snapshots s + 1 \<and>
        error_snapshots (add_snapshot s x) = error_snapshots s)
   \<and> (\<not> is_healthy x \<longrightarrow>
        error_snapshots (add_snapshot s x) = error_snapshots s + 1 \<and>
        healthy_snapshots (add_snapshot s x) = healthy_snapshots s)"
proof -
  have "int (length xs) =
      int (length (filter is_healthy xs)) + int (length (filter (\<lambda>x. \<not> is_healthy x) xs))"
    by (rule filter_split_length)
  then have inv: "total_snapshots s = healthy_snapshots s + error_snapshots s \<longrightarrow>
      total_snapshots (add_snapshots s xs) =
        healthy_snapshots (add_snapshots s xs) + error_snapshots (add_snapshots s xs)"
    by (simp add: add_snapshots_total add_snapshots_healthy add_snapshots_error)
  have len: "int (length (snapshots s)) = total_snapshots s \<longrightarrow>
      int (length (snapshots (add_snapshots s xs))) = total_snapshots (add_snapshots s xs)"
    by (simp add: add_snapshots_total add_snapshots_snapshots)
  have new: "snapshots (add_snapshots (new_MonitorSession u l t) xs) = xs"
    by (simp add: add_snapshots_snapshots new_MonitorSession_def)
  have fresh: "total_snapshots (new_MonitorSession u l t) =
       healthy_snapshots (new_MonitorSession u l t) + error_snapshots (new_MonitorSession u l t)
     \<and> int (length (snapshots (new_MonitorSession u l t))) = total_snapshots (new_MonitorSession u l t)"
    by (simp add: new_MonitorSession_def)
  have step: "snapshots (add_snapshots s xs) = snapshots s @ xs
     \<and> snapshots (add_snapshot s x) = snapshots s @ [x]
     \<and> total_snapshots (add_snapshot s x) = total_snapshots s + 1"
    by (simp add: add_snapshots_snapshots add_snapshot_snapshots add_snapshot_total)
  have healthy: "is_healthy x \<longrightarrow>
        healthy_snapshots (add_snapshot s x) = healthy_snapshots s + 1 \<and>
        error_snapshots (add_snapshot s x) = error_snapshots s"
    by (simp add: add_snapshot_healthy add_snapshot_error)
  have unhealthy: "\<not> is_healthy x \<longrightarrow>
        error_snapshots (add_snapshot s x) = error_snapshots s + 1 \<and>
        healthy_snapshots (add_snapshot s x) = healthy_snapshots s"
    by (simp add: add_snapshot_healthy add_snapshot_error)
  from inv len fresh new step healthy unhealthy show ?thesis
    by blast
qed

theorem add_snapshot_counters_witness:
  "total_snapshots (add_snapshots (new_MonitorSession [] [] []) [example_snapshot, captcha_snapshot, ended_snapshot]) = 3
   \<and> healthy_snapshots (add_snapshots (new_MonitorSession [] [] []) [example_snapshot, captcha_snapshot, ended_snapshot]) = 2
   \<and> error_snapshots (add_snapshots (new_MonitorSession [] [] []) [example_snapshot, captcha_snapshot, ended_snapshot]) = 1
   \<and> snapshots (add_snapshots (new_MonitorSession [] [] []) [example_snapshot, captcha_snapshot, ended_snapshot])
        = [example_snapshot, captcha_snapshot, ended_snapshot]
   \<and> is_healthy example_snapshot \<and> \<not> is_healthy captcha_snapshot
   \<and> healthy_snapshots (add_snapshot (new_MonitorSession [] [] []) example_snapshot) = 1
   \<and> error_snapshots (add_snapshot (new_MonitorSession [] [] []) captcha_snapshot) = 1"
  using add_snapshot_counters [of "new_MonitorSession [] [] []"
      "[example_snapshot, captcha_snapshot, ended_snapshot]" "[]" "[]" "[]" example_snapshot]
    add_snapshot_counters [of "new_MonitorSession [] [] []" "[]" "[]" "[]" "[]" captcha_snapshot]
  by (simp add: add_snapshots_def add_snapshot_def new_MonitorSession_def is_healthy_def
      captcha_snapshot_def ended_snapshot_def example_snapshot_def Let_def)

section \<open>Serialising a snapshot\<close>

text \<open>
  C10. The dict of \<open>to_dict\<close> has the fifteen keys below and no others. Under
  \<open>body_text_preview\<close> it carries the first 200 characters of the field, under
  \<open>has_initial_data\<close> whether \<open>initial_data\<close> is set, and no key carries \<open>initial_data\<close>
  itself; every other key carries the field of its name unchanged, \<open>viewer_count\<close> as
  \<open>None\<close> when the field is \<open>None\<close> and as the integer itself when it holds one. The call
  leaves the snapshot as it was.
\<close>

theorem to_dict_items:
  "map fst (to_dict s) =
     [''timestamp'', ''url'', ''title'', ''has_video'', ''has_error_message'', ''has_page_error'',
      ''has_live_content'', ''is_live_ended'', ''has_captcha'', ''element_count'', ''video_count'',
      ''html_size'', ''viewer_count'', ''has_initial_data'', ''body_text_preview'']
   \<and> distinct (map fst (to_dict s))
   \<and> map_of (to_dict s) ''body_text_preview'' = Some (PyStr (take 200 (body_text_preview s)))
   \<and> map_of (to_dict s) ''has_initial_data'' = Some (PyBool (initial_data s \<noteq> None))
   \<and> map_of (to_dict s) ''initial_data'' = None
   \<and> map_of (to_dict s) ''timestamp'' = Some (PyStr (timestamp s))
   \<and> map_of (to_dict s) ''url'' = Some (PyStr (url s))
   \<and> map_of (to_dict s) ''title'' = Some (PyStr (title s))
   \<and> map_of (to_dict s) ''has_video'' = Some (PyBool (has_video s))
   \<and> map_of (to_dict s) ''has_error_message'' = Some (PyBool (has_error_message s))
   \<and> map_of (to_dict s) ''has_page_error'' = Some (PyBool (has_page_error s))
   \<and> map_of (to_dict s) ''has_live_content'' = Some (PyBool (has_live_content s))
   \<and> map_of (to_dict s) ''is_live_ended'' = Some (PyBool (is_live_ended s))
   \<and> map_of (to_dict s) ''has_captcha'' = Some (PyBool (has_captcha s))
   \<and> map_of (to_dict s) ''element_count'' = Some (PyInt (element_count s))
   \<and> map_of (to_dict s) ''video_count'' = Some (PyInt (video_count s))
   \<and> map_of (to_dict s) ''html_size'' = Some (PyInt (html_size s))
   \<and> (viewer_count s = None \<longrightarrow> map_of (to_dict s) ''viewer_count'' = Some PyNone)
   \<and> (viewer_count s = Some n \<longrightarrow> map_of (to_dict s) ''viewer_count'' = Some (PyInt n))
   \<and> snd (to_dict_call s) = s \<and> fst (to_dict_call s) = to_dict s"
  by (simp add: to_dict_def to_dict_call_def)

text \<open>
  A snapshot holding 500 characters, a blob and no viewer count, and one holding a viewer
  count of 15 and no blob.
\<close>

theorem to_dict_items_witness:
  "length (body_text_preview long_preview_snapshot) = 500
   \<and> map_of (to_dict long_preview_snapshot) ''body_text_preview'' = Some (PyStr (replicate 200 97))
   \<and> initial_data long_preview_snapshot = Some (JObj [])
   \<and> map_of (to_dict long_preview_snapshot) ''has_initial_data'' = Some (PyBool True)
   \<and> viewer_count long_preview_snapshot = None
   \<and> map_of (to_dict long_preview_snapshot) ''viewer_count'' = Some PyNone
   \<and> initial_data example_snapshot = None
   \<and> map_of (to_dict example_snapshot) ''has_initial_data'' = Some (PyBool False)
   \<and> viewer_count example_snapshot = Some 15
   \<and> map_of (to_dict example_snapshot) ''viewer_count'' = Some (PyInt 15)
   \<and> map_of (to_dict example_snapshot) ''element_count'' = Some (PyInt 1200)
   \<and> snd (to_dict_call long_preview_snapshot) = long_preview_snapshot"
  using to_dict_items [of long_preview_snapshot 0] to_dict_items [of example_snapshot 15]
  by (simp add: long_preview_snapshot_def example_snapshot_def)

section \<open>Interaction watermark\<close>

lemma py_slice_from_nonneg: "0 \<le> n \<Longrightarrow> py_slice_from xs n = drop (nat n) xs"
  by (simp add: py_slice_from_def)

lemma process_live_interactions_returns:
  "hooks c \<Longrightarrow> 0 \<le> processed_interaction_count c \<Longrightarrow>
   process_live_interactions c (Script_returns r) =
     (drop (nat (processed_interaction_count c)) r,
      c\<lparr>processed_interaction_count := int (length r)\<rparr>)"
  by (simp add: process_live_interactions_def get_live_interactions_def py_slice_from_nonneg Let_def)

lemma grows_prefix_last: "grows_by_appending (r # rs) \<Longrightarrow> prefix r (last (r # rs))"
proof (induction rs arbitrary: r)
  case Nil
  then show ?case by simp
next
  case (Cons r' rs)
  then have "prefix r r'" and "prefix r' (last (r' # rs))" by simp_all
  then have "prefix r (last (r' # rs))" by (rule prefix_order.trans)
  then show ?case by simp
qed

lemma drop_prefix_split:
  assumes "prefix r L" and "w \<le> length r"
  shows "drop w r @ drop (length r) L = drop w L"
proof -
  from assms(1) obtain z where "L = r @ z" by (auto simp: prefix_def)
  with assms(2) show ?thesis by simp
qed

lemma polls_concat:
  "hooks c \<Longrightarrow> grows_by_appending (r # rs) \<Longrightarrow> 0 \<le> processed_interaction_count c \<Longrightarrow>
   nat (processed_interaction_count c) \<le> length r \<Longrightarrow>
   concat (fst (polls c (map Script_returns (r # rs)))) =
     drop (nat (processed_interaction_count c)) (last (r # rs))
   \<and> snd (polls c (map Script_returns (r # rs))) =
     c\<lparr>processed_interaction_count := int (length (last (r # rs)))\<rparr>"
proof (induction rs arbitrary: c r)
  case Nil
  then show ?case by (simp add: process_live_interactions_returns)
next
  case (Cons r' rs)
  let ?c1 = "c\<lparr>processed_interaction_count := int (length r)\<rparr>"
  from Cons.prems have pre: "prefix r r'" and grows: "grows_by_appending (r' # rs)" by simp_all
  from pre have len: "length r \<le> length r'" by (rule prefix_length_le)
  have step: "process_live_interactions c (Script_returns r) =
      (drop (nat (processed_interaction_count c)) r, ?c1)"
    using Cons.prems by (simp add: process_live_interactions_returns)
  have ih: "concat (fst (polls ?c1 (map Script_returns (r' # rs)))) = drop (length r) (last (r' # rs))
      \<and> snd (polls ?c1 (map Script_returns (r' # rs))) =
        ?c1\<lparr>processed_interaction_count := int (length (last (r' # rs)))\<rparr>"
    using Cons.IH [of ?c1 r'] Cons.prems(1) grows len by simp
  from pre grows have "prefix r (last (r' # rs))"
    using grows_prefix_last [of r' rs] by (meson prefix_order.trans)
  then have split: "drop (nat (processed_interaction_count c)) r @ drop (length r) (last (r' # rs))
      = drop (nat (processed_interaction_count c)) (last (r' # rs))"
    using Cons.prems(4) by (rule drop_prefix_split)
  have unfold: "polls c (map Script_returns (r # r' # rs)) =
      (drop (nat (processed_interaction_count c)) r # fst (polls ?c1 (map Script_returns (r' # rs))),
       snd (polls ?c1 (map Script_returns (r' # rs))))"
    using step by (simp add: case_prod_beta del: polls.simps(2) add: polls.simps(2) [of c])
  show ?case
    using ih split by (simp only: unfold fst_conv snd_conv concat.simps last.simps) simp
qed

text \<open>
  While every read succeeds the watermark does its work. Let the hooks be installed, let
  every poll read the captured sequence, let the sequence only grow by appending between
  polls, and let the counter start inside the first read. Then each poll displays exactly the interactions beyond the counter and
  sets the counter to the length read; the batches of all polls, joined in order, are the
  last read without its first \<open>processed_interaction_count\<close> entries, so that no
  interaction is displayed twice and none is skipped; and starting from 0 they are the
  whole captured sequence.
\<close>

lemma polls_deliver_once:
  "hooks c \<and> grows_by_appending (r # rs) \<and> 0 \<le> processed_interaction_count c \<and>
   nat (processed_interaction_count c) \<le> length r \<longrightarrow>
     process_live_interactions c (Script_returns r) =
       (drop (nat (processed_interaction_count c)) r,
        c\<lparr>processed_interaction_count := int (length r)\<rparr>)
     \<and> concat (fst (polls c (map Script_returns (r # rs)))) =
          drop (nat (processed_interaction_count c)) (last (r # rs))
     \<and> processed_interaction_count (snd (polls c (map Script_returns (r # rs)))) =
          int (length (last (r # rs)))
     \<and> (processed_interaction_count c = 0 \<longrightarrow>
          concat (fst (polls c (map Script_returns (r # rs)))) = last (r # rs))"
proof (intro impI, elim conjE)
  assume h: "hooks c" and g: "grows_by_appending (r # rs)"
    and w0: "0 \<le> processed_interaction_count c"
    and w1: "nat (processed_interaction_count c) \<le> length r"
  have one: "process_live_interactions c (Script_returns r) =
       (drop (nat (processed_interaction_count c)) r,
        c\<lparr>processed_interaction_count := int (length r)\<rparr>)"
    using h w0 by (rule process_live_interactions_returns)
  have all: "concat (fst (polls c (map Script_returns (r # rs)))) =
       drop (nat (processed_interaction_count c)) (last (r # rs))
     \<and> snd (polls c (map Script_returns (r # rs))) =
       c\<lparr>processed_interaction_count := int (length (last (r # rs)))\<rparr>"
    using h g w0 w1 by (rule polls_concat)
  then have mark: "processed_interaction_count (snd (polls c (map Script_returns (r # rs)))) =
       int (length (last (r # rs)))"
    by simp
  from all have zero: "processed_interaction_count c = 0 \<longrightarrow>
       concat (fst (polls c (map Script_returns (r # rs)))) = last (r # rs)"
    by simp
  from one all mark zero show "process_live_interactions c (Script_returns r) =
       (drop (nat (processed_interaction_count c)) r,
        c\<lparr>processed_interaction_count := int (length r)\<rparr>)
     \<and> concat (fst (polls c (map Script_returns (r # rs)))) =
          drop (nat (processed_interaction_count c)) (last (r # rs))
     \<and> processed_interaction_count (snd (polls c (map Script_returns (r # rs)))) =
          int (length (last (r # rs)))
     \<and> (processed_interaction_count c = 0 \<longrightarrow>
          concat (fst (polls c (map Script_returns (r # rs)))) = last (r # rs))"
    by blast
qed

lemma polls_deliver_once_example:
  "hooks polling_collector \<and> processed_interaction_count polling_collector = 0
   \<and> grows_by_appending [[chat1], [chat1], [chat1, gift2, like3]]
   \<and> polls polling_collector
        [Script_returns [chat1], Script_returns [chat1], Script_returns [chat1, gift2, like3]] =
       ([[chat1], [], [gift2, like3]], polling_collector\<lparr>processed_interaction_count := 3\<rparr>)
   \<and> concat (fst (polls polling_collector
        [Script_returns [chat1], Script_returns [chat1], Script_returns [chat1, gift2, like3]])) =
       [chat1, gift2, like3]"
  using polls_deliver_once [of polling_collector "[chat1]" "[[chat1], [chat1, gift2, like3]]"]
  by (simp add: polling_collector_def prepared_LiveCollector_def new_LiveCollector_def
      process_live_interactions_def get_live_interactions_def py_slice_from_def Let_def)

text \<open>
  C2. The exactly-once delivery does not survive a poll whose read fails. The captured
  sequence only grows (\<open>chat1, gift2\<close>, then \<open>like3\<close> appended) and the three polls are made
  one after the other; the read of the second poll raises. The first poll displays
  \<open>chat1, gift2\<close>, the second nothing, and the third the whole sequence: \<open>chat1\<close> and
  \<open>gift2\<close> are displayed twice, and the batches joined differ from the captured sequence.
\<close>

theorem failed_read_redelivers:
  "grows_by_appending [[chat1, gift2], [chat1, gift2], [chat1, gift2, like3]]
   \<and> hooks polling_collector \<and> processed_interaction_count polling_collector = 0
   \<and> polls polling_collector
        [Script_returns [chat1, gift2], Script_raises, Script_returns [chat1, gift2, like3]] =
       ([[chat1, gift2], [], [chat1, gift2, like3]],
        polling_collector\<lparr>processed_interaction_count := 3\<rparr>)
   \<and> concat (fst (polls polling_collector
        [Script_returns [chat1, gift2], Script_raises, Script_returns [chat1, gift2, like3]])) =
       [chat1, gift2, chat1, gift2, like3]
   \<and> distinct [chat1, gift2, like3]
   \<and> \<not> distinct (concat (fst (polls polling_collector
        [Script_returns [chat1, gift2], Script_raises, Script_returns [chat1, gift2, like3]])))"
  by (simp add: polling_collector_def prepared_LiveCollector_def new_LiveCollector_def
      process_live_interactions_def get_live_interactions_def py_slice_from_def Let_def
      chat1_def gift2_def like3_def interaction_def py_ascii_def)

text \<open>
  C5. A poll whose read fails sets the counter back to 0: \<open>get_live_interactions\<close>
  answers a failure with the empty list, and \<open>process_live_interactions\<close> stores the
  length of whatever it was given. With three interactions displayed, a failed read
  brings the counter from 3 to 0, and the next poll displays the same three again.
\<close>

theorem failed_read_resets_watermark:
  "process_live_interactions (polling_collector\<lparr>processed_interaction_count := 3\<rparr>) Script_raises =
     ([], polling_collector\<lparr>processed_interaction_count := 0\<rparr>)
   \<and> polls polling_collector
        [Script_returns [chat1, gift2, like3], Script_raises, Script_returns [chat1, gift2, like3]] =
       ([[chat1, gift2, like3], [], [chat1, gift2, like3]],
        polling_collector\<lparr>processed_interaction_count := 3\<rparr>)"
  by (simp add: polling_collector_def prepared_LiveCollector_def new_LiveCollector_def
      process_live_interactions_def get_live_interactions_def py_slice_from_def Let_def)

section \<open>Page-error retries\<close>

lemma collect_step_page_error_retry:
  assumes "create_snapshot cy = Inr s" and "has_page_error s"
    and "page_error_retry_count c < max_page_error_retries c" and "\<not> refresh_raises cy"
  shows "collect_step c cy =
    Some (Recurse, c\<lparr>page_error_retry_count := page_error_retry_count c + 1\<rparr>,
          [Driver_refresh, Sleep 5] @ reinstall_hooks c)"
  using assms by (simp add: collect_step_def Let_def reinstall_hooks_def)

lemma collect_step_page_error_stop:
  assumes "create_snapshot cy = Inr s" and "has_page_error s"
    and "\<not> page_error_retry_count c < max_page_error_retries c"
  shows "collect_step c cy = Some (Done (Return False), c, [])"
  using assms by (simp add: collect_step_def)

lemma collect_step_no_page_error:
  assumes "create_snapshot cy = Inr s" and "\<not> has_page_error s"
    and "collect_step c cy = Some (r, c', es)"
  shows "page_error_retry_count c' = 0"
  using assms
  by (auto simp: collect_step_def Let_def split: option.splits if_splits prod.splits)

lemma page_error_cycleD:
  "page_error_cycle cy \<Longrightarrow> \<exists>s. create_snapshot cy = Inr s \<and> has_page_error s"
  by (cases "create_snapshot cy") (simp_all add: page_error_cycle_def)

lemma collect_once_Recurse:
  "collect_step c cy = Some (Recurse, c1, es) \<Longrightarrow>
   collect_once c (cy # cycles) =
     map_option (\<lambda>(result, c2, es2). (result, c2, es @ es2)) (collect_once c1 cycles)"
  by simp

lemma collect_once_Done:
  "collect_step c cy = Some (Done result, c1, es) \<Longrightarrow>
   collect_once c (cy # cycles) = Some (result, c1, es)"
  by simp

text \<open>
  C3. With the limit of three retries that the constructor sets: a pass whose snapshot
  has no page error leaves the retry counter at 0, whatever it was and however the pass
  ends. From a counter of 0, four passes in a row that show the page error go as
  follows, as long as the refreshes themselves do not raise: each of the first three adds
  1 to the counter, refreshes the page, sleeps, reinstalls the hooks and calls
  \<open>collect_once\<close> again; the fourth returns \<open>False\<close> without a refresh and without an
  exception. So the call returns \<open>False\<close> on the fourth such snapshot, after exactly
  three refreshes, and is still running after three of them.
\<close>

theorem page_error_retry_counter:
  "max_page_error_retries c = 3 \<longrightarrow>
     (create_snapshot cy = Inr s \<and> \<not> has_page_error s \<and> collect_step c cy = Some (r, c', es) \<longrightarrow>
        page_error_retry_count c' = 0)
     \<and> (page_error_retry_count c = 0 \<and>
        page_error_cycle a1 \<and> \<not> refresh_raises a1 \<and>
        page_error_cycle a2 \<and> \<not> refresh_raises a2 \<and>
        page_error_cycle a3 \<and> \<not> refresh_raises a3 \<and>
        page_error_cycle a4 \<longrightarrow>
          collect_step c a1 =
            Some (Recurse, c\<lparr>page_error_retry_count := 1\<rparr>, [Driver_refresh, Sleep 5] @ reinstall_hooks c)
        \<and> collect_step (c\<lparr>page_error_retry_count := 1\<rparr>) a2 =
            Some (Recurse, c\<lparr>page_error_retry_count := 2\<rparr>, [Driver_refresh, Sleep 5] @ reinstall_hooks c)
        \<and> collect_step (c\<lparr>page_error_retry_count := 2\<rparr>) a3 =
            Some (Recurse, c\<lparr>page_error_retry_count := 3\<rparr>, [Driver_refresh, Sleep 5] @ reinstall_hooks c)
        \<and> collect_step (c\<lparr>page_error_retry_count := 3\<rparr>) a4 =
            Some (Done (Return False), c\<lparr>page_error_retry_count := 3\<rparr>, [])
        \<and> collect_once c [a1, a2, a3] = None
        \<and> collect_once c (a1 # a2 # a3 # a4 # later) =
            Some (Return False, c\<lparr>page_error_retry_count := 3\<rparr>,
                  ([Driver_refresh, Sleep 5] @ reinstall_hooks c) @
                  ([Driver_refresh, Sleep 5] @ reinstall_hooks c) @
                  ([Driver_refresh, Sleep 5] @ reinstall_hooks c)))"
proof (intro impI conjI; (elim conjE)?)
  assume "create_snapshot cy = Inr s" and "\<not> has_page_error s"
    and "collect_step c cy = Some (r, c', es)"
  then show "page_error_retry_count c' = 0"
    by (rule collect_step_no_page_error)
next
  assume max: "max_page_error_retries c = 3" and zero: "page_error_retry_count c = 0"
    and a: "page_error_cycle a1" "page_error_cycle a2" "page_error_cycle a3" "page_error_cycle a4"
    and ok: "\<not> refresh_raises a1" "\<not> refresh_raises a2" "\<not> refresh_raises a3"
  let ?fx = "[Driver_refresh, Sleep 5] @ reinstall_hooks c"
  from a obtain s1 s2 s3 s4 where
    s: "create_snapshot a1 = Inr s1" "has_page_error s1" "create_snapshot a2 = Inr s2" "has_page_error s2"
       "create_snapshot a3 = Inr s3" "has_page_error s3" "create_snapshot a4 = Inr s4" "has_page_error s4"
    by (blast dest: page_error_cycleD)
  have hk: "reinstall_hooks (c\<lparr>page_error_retry_count := n\<rparr>) = reinstall_hooks c" for n
    by (simp add: reinstall_hooks_def)
  show 1: "collect_step c a1 = Some (Recurse, c\<lparr>page_error_retry_count := 1\<rparr>, ?fx)"
    using collect_step_page_error_retry [OF s(1,2) _ ok(1), of c] max zero by simp
  show 2: "collect_step (c\<lparr>page_error_retry_count := 1\<rparr>) a2 =
      Some (Recurse, c\<lparr>page_error_retry_count := 2\<rparr>, ?fx)"
    using collect_step_page_error_retry [OF s(3,4) _ ok(2), of "c\<lparr>page_error_retry_count := 1\<rparr>"] max
    by (simp add: hk)
  show 3: "collect_step (c\<lparr>page_error_retry_count := 2\<rparr>) a3 =
      Some (Recurse, c\<lparr>page_error_retry_count := 3\<rparr>, ?fx)"
    using collect_step_page_error_retry [OF s(5,6) _ ok(3), of "c\<lparr>page_error_retry_count := 2\<rparr>"] max
    by (simp add: hk)
  show 4: "collect_step (c\<lparr>page_error_retry_count := 3\<rparr>) a4 =
      Some (Done (Return False), c\<lparr>page_error_retry_count := 3\<rparr>, [])"
    using collect_step_page_error_stop [OF s(7,8), of "c\<lparr>page_error_retry_count := 3\<rparr>"] max
    by simp
  show "collect_once c [a1, a2, a3] = None"
    by (simp only: collect_once_Recurse [OF 1] collect_once_Recurse [OF 2] collect_once_Recurse [OF 3]
        collect_once.simps(1) option.map(1))
  show "collect_once c (a1 # a2 # a3 # a4 # later) =
      Some (Return False, c\<lparr>page_error_retry_count := 3\<rparr>, ?fx @ ?fx @ ?fx)"
    by (simp only: collect_once_Recurse [OF 1] collect_once_Recurse [OF 2] collect_once_Recurse [OF 3]
        collect_once_Done [OF 4]) simp
qed

text \<open>
  After two retries a healthy snapshot brings the counter back to 0; from 0, four
  snapshots with the page error give three refreshes and then \<open>False\<close>, and three of
  them leave the call running.
\<close>

theorem page_error_retry_counter_witness:
  "max_page_error_retries running_collector = 3
   \<and> collect_step (running_collector\<lparr>page_error_retry_count := 2\<rparr>) (cycle_of example_snapshot) =
       Some (Done (Return True),
             running_collector\<lparr>session := Some (add_snapshot (new_MonitorSession [] [] []) example_snapshot),
               page_error_retry_count := 0\<rparr>, [])
   \<and> page_error_retry_count
         (running_collector\<lparr>session := Some (add_snapshot (new_MonitorSession [] [] []) example_snapshot),
               page_error_retry_count := 0\<rparr>) = 0
   \<and> collect_once running_collector
         [cycle_of page_error_snapshot, cycle_of page_error_snapshot, cycle_of page_error_snapshot] = None
   \<and> collect_once running_collector
         [cycle_of page_error_snapshot, cycle_of page_error_snapshot,
          cycle_of page_error_snapshot, cycle_of page_error_snapshot] =
       Some (Return False, running_collector\<lparr>page_error_retry_count := 3\<rparr>,
             [Driver_refresh, Sleep 5, Install_all_hooks, Inject_data_extractor,
              Driver_refresh, Sleep 5, Install_all_hooks, Inject_data_extractor,
              Driver_refresh, Sleep 5, Install_all_hooks, Inject_data_extractor])"
  using page_error_retry_counter [of "running_collector\<lparr>page_error_retry_count := 2\<rparr>"
      "cycle_of example_snapshot" example_snapshot "Done (Return True)"
      "running_collector\<lparr>session := Some (add_snapshot (new_MonitorSession [] [] []) example_snapshot),
               page_error_retry_count := 0\<rparr>" "[]"]
    page_error_retry_counter [of running_collector _ _ _ _ _
      "cycle_of page_error_snapshot" "cycle_of page_error_snapshot" "cycle_of page_error_snapshot"
      "cycle_of page_error_snapshot" "[]"]
  by (simp add: running_collector_def prepared_LiveCollector_def new_LiveCollector_def
      cycle_of_def page_error_cycle_def page_error_snapshot_def example_snapshot_def
      collect_step_def reinstall_hooks_def is_healthy_def Let_def)

section \<open>What reaches the session\<close>

lemma collect_step_Recurse_session:
  "collect_step c cy = Some (Recurse, c1, es) \<Longrightarrow> session c1 = session c"
  by (auto simp: collect_step_def Let_def split: sum.splits option.splits if_splits prod.splits)

lemma collect_step_flagged_session:
  assumes "create_snapshot cy = Inr s" and "has_page_error s \<or> has_captcha s"
    and "collect_step c cy = Some (r, c1, es)"
  shows "session c1 = session c"
  using assms
  by (auto simp: collect_step_def Let_def split: option.splits if_splits prod.splits)

lemma collect_step_failed_session:
  assumes "create_snapshot cy = Inl e" and "collect_step c cy = Some (r, c1, es)"
  shows "session c1 = session c"
  using assms by (simp add: collect_step_def)

lemma collect_step_recorded:
  assumes "create_snapshot cy = Inr s" and "\<not> has_page_error s" and "\<not> has_captcha s"
    and "session c = Some ss" and "collect_step c cy = Some (r, c1, es)"
  shows "session c1 = Some (add_snapshot ss s)"
  using assms
  by (auto simp: collect_step_def Let_def split: if_splits)

lemma collect_step_session_cases:
  assumes "collect_step c cy = Some (r, c1, es)"
  shows "session c1 = session c \<or>
    (\<exists>ss s. session c = Some ss \<and> session c1 = Some (add_snapshot ss s) \<and>
       create_snapshot cy = Inr s \<and> \<not> has_page_error s \<and> \<not> has_captcha s)"
proof (cases "create_snapshot cy")
  case (Inl e)
  then have "session c1 = session c" using assms by (rule collect_step_failed_session)
  then show ?thesis ..
next
  case (Inr s)
  show ?thesis
  proof (cases "has_page_error s \<or> has_captcha s")
    case True
    with Inr have "session c1 = session c" using assms by (rule collect_step_flagged_session)
    then show ?thesis ..
  next
    case False
    then have flags: "\<not> has_page_error s" "\<not> has_captcha s" by simp_all
    show ?thesis
    proof (cases "session c")
      case None
      with Inr flags assms have "c1 = c\<lparr>page_error_retry_count := 0\<rparr>"
        by (simp add: collect_step_def Let_def)
      then have "session c1 = session c" by simp
      then show ?thesis ..
    next
      case (Some ss)
      with Inr flags have "session c1 = Some (add_snapshot ss s)"
        using assms by (intro collect_step_recorded)
      with Some Inr flags show ?thesis by blast
    qed
  qed
qed

lemma appendedI:
  "session c = Some ss \<Longrightarrow> session c' = Some (add_snapshot ss s) \<Longrightarrow>
   Inr s \<in> set (map create_snapshot cycles) \<Longrightarrow> \<not> has_page_error s \<Longrightarrow> \<not> has_captcha s \<Longrightarrow>
   appended c c' cycles"
  unfolding appended_def by blast

lemma appended_Cons:
  "appended c1 c' cycles \<Longrightarrow> session c1 = session c \<Longrightarrow> appended c c' (cy # cycles)"
  unfolding appended_def by auto

lemma collect_step_appended:
  assumes "collect_step c cy = Some (r, c1, es)"
  shows "session c1 = session c \<or> appended c c1 (cy # cycles)"
proof -
  from collect_step_session_cases [OF assms] show ?thesis
  proof
    assume "session c1 = session c"
    then show ?thesis ..
  next
    assume "\<exists>ss s. session c = Some ss \<and> session c1 = Some (add_snapshot ss s) \<and>
       create_snapshot cy = Inr s \<and> \<not> has_page_error s \<and> \<not> has_captcha s"
    then obtain ss s where h: "session c = Some ss" "session c1 = Some (add_snapshot ss s)"
      "create_snapshot cy = Inr s" "\<not> has_page_error s" "\<not> has_captcha s"
      by blast
    from h(3) have "Inr s \<in> set (map create_snapshot (cy # cycles))" by simp
    with h have "appended c c1 (cy # cycles)" by (intro appendedI)
    then show ?thesis ..
  qed
qed

lemma collect_once_appended:
  "collect_once c cycles = Some (out, c', es) \<Longrightarrow> session c' = session c \<or> appended c c' cycles"
proof (induction cycles arbitrary: c out c' es)
  case Nil
  then show ?case by simp
next
  case (Cons cy cycles)
  from Cons.prems obtain st c1 es1 where step: "collect_step c cy = Some (st, c1, es1)"
    by (cases "collect_step c cy") auto
  show ?case
  proof (cases st)
    case (Done result)
    with step Cons.prems have "c' = c1" by simp
    with collect_step_appended [OF step] show ?thesis by simp
  next
    case Recurse
    with step have "collect_step c cy = Some (Recurse, c1, es1)" by simp
    then have same: "session c1 = session c" by (rule collect_step_Recurse_session)
    from Recurse step Cons.prems obtain es2 where "collect_once c1 cycles = Some (out, c', es2)"
      by (cases "collect_once c1 cycles") auto
    from Cons.IH [OF this] show ?thesis
    proof
      assume "session c' = session c1"
      with same show ?thesis by simp
    next
      assume "appended c1 c' cycles"
      then have "appended c c' (cy # cycles)" using same by (rule appended_Cons)
      then show ?thesis ..
    qed
  qed
qed

lemma collect_once_session_cases:
  "collect_once c cycles = Some (out, c', es) \<Longrightarrow>
   session c' = session c \<or>
    (\<exists>ss s. session c = Some ss \<and> session c' = Some (add_snapshot ss s) \<and>
       Inr s \<in> set (map create_snapshot cycles) \<and> \<not> has_page_error s \<and> \<not> has_captcha s)"
  using collect_once_appended [of c cycles out c' es] unfolding appended_def .

text \<open>
  C6. A pass whose snapshot shows the page error or the captcha leaves the session as it
  was, however the pass ends, and so does a pass whose snapshot could not be built; the
  three counters are fields of the session. A pass whose snapshot shows neither appends
  exactly that snapshot. A whole call of \<open>collect_once\<close> therefore leaves the session
  alone or appends a single snapshot, one that shows neither the page error nor the
  captcha.
\<close>

theorem flagged_snapshot_not_recorded:
  "(create_snapshot cy = Inr s \<and> (has_page_error s \<or> has_captcha s) \<and>
      collect_step c cy = Some (r, c1, es) \<longrightarrow>
        session c1 = session c)
   \<and> (create_snapshot cy = Inr s \<and> \<not> has_page_error s \<and> \<not> has_captcha s \<and>
      session c = Some ss \<and> collect_step c cy = Some (r, c1, es) \<longrightarrow>
        session c1 = Some (add_snapshot ss s))
   \<and> (collect_once c cycles = Some (out, c2, es2) \<longrightarrow>
        session c2 = session c \<or>
        (\<exists>ss s. session c = Some ss \<and> session c2 = Some (add_snapshot ss s) \<and>
           Inr s \<in> set (map create_snapshot cycles) \<and> \<not> has_page_error s \<and> \<not> has_captcha s))"
proof (intro conjI impI)
  assume "create_snapshot cy = Inr s \<and> (has_page_error s \<or> has_captcha s) \<and>
      collect_step c cy = Some (r, c1, es)"
  then show "session c1 = session c"
    using collect_step_flagged_session [of cy s c r c1 es] by simp
next
  assume "create_snapshot cy = Inr s \<and> \<not> has_page_error s \<and> \<not> has_captcha s \<and>
      session c = Some ss \<and> collect_step c cy = Some (r, c1, es)"
  then show "session c1 = Some (add_snapshot ss s)"
    using collect_step_recorded [of cy s c ss r c1 es] by simp
next
  assume "collect_once c cycles = Some (out, c2, es2)"
  then show "session c2 = session c \<or>
        (\<exists>ss s. session c = Some ss \<and> session c2 = Some (add_snapshot ss s) \<and>
           Inr s \<in> set (map create_snapshot cycles) \<and> \<not> has_page_error s \<and> \<not> has_captcha s)"
    by (rule collect_once_session_cases)
qed

text \<open>
  The scenario of a healthy snapshot, a captcha that is solved in time, and another
  healthy snapshot: the session ends with the two healthy snapshots.
\<close>

theorem flagged_snapshot_not_recorded_witness:
  "collect_once running_collector [cycle_of example_snapshot] =
     Some (Return True, one_snapshot_collector, [])
   \<and> collect_step one_snapshot_collector (captcha_cycle solved_episode) =
       Some (Recurse, one_snapshot_collector, [Sleep 1, Sleep 1, Sleep 3])
   \<and> session one_snapshot_collector = Some (add_snapshots (new_MonitorSession [] [] []) [example_snapshot])
   \<and> collect_once one_snapshot_collector [captcha_cycle solved_episode, cycle_of example_snapshot] =
       Some (Return True,
             one_snapshot_collector\<lparr>session :=
               Some (add_snapshots (new_MonitorSession [] [] []) [example_snapshot, example_snapshot])\<rparr>,
             [Sleep 1, Sleep 1, Sleep 3])
   \<and> snapshots (add_snapshots (new_MonitorSession [] [] []) [example_snapshot, example_snapshot]) =
       [example_snapshot, example_snapshot]
   \<and> total_snapshots (add_snapshots (new_MonitorSession [] [] []) [example_snapshot, example_snapshot]) = 2"
  using flagged_snapshot_not_recorded [of "captcha_cycle solved_episode" captcha_snapshot
      one_snapshot_collector Recurse one_snapshot_collector "[Sleep 1, Sleep 1, Sleep 3]"
      "add_snapshot (new_MonitorSession [] [] []) example_snapshot"
      "[captcha_cycle solved_episode, cycle_of example_snapshot]" "Return True"
      "one_snapshot_collector\<lparr>session :=
               Some (add_snapshots (new_MonitorSession [] [] []) [example_snapshot, example_snapshot])\<rparr>"
      "[Sleep 1, Sleep 1, Sleep 3]"]
  by (simp add: one_snapshot_collector_def running_collector_def prepared_LiveCollector_def
      new_LiveCollector_def cycle_of_def captcha_cycle_def solved_episode_def
      captcha_snapshot_def example_snapshot_def collect_step_def handle_captcha_def
      add_snapshots_def add_snapshot_def is_healthy_def new_MonitorSession_def Let_def)

section \<open>The captcha wait\<close>









lemma handle_captcha_no_wait:
  "handler_raises ep \<or> \<not> capture_captcha_image ep \<Longrightarrow> handle_captcha timeout ep = Some (False, [])"
  by (auto simp: handle_captcha_def)


lemma solved_in_window_flag_readings:
  "solved_in_window T (flag_readings a ts) \<longleftrightarrow> (\<exists>e \<in> set ts. a \<le> e \<and> e < of_int T)"
  by (auto simp: solved_in_window_def flag_readings_def list_ex_iff)









section \<open>The example built-ins\<close>

lemma bit_length_numeral:
  "bit_length 0 = 0"
  "bit_length (Suc 0) = 1"
  "bit_length (numeral (Num.Bit0 k)) = Suc (bit_length (numeral k))"
  "bit_length (numeral (Num.Bit1 k)) = Suc (bit_length (numeral k))"
  by (simp_all add: numeral_Bit0_div_2 numeral_Bit1_div_2 bit_length.simps [of "numeral _"]
      bit_length.simps [of 0] bit_length.simps [of "Suc 0"])

text \<open>
  \<open>decimal_parseInt\<close> is exact up to \<open>2^53\<close> and rounds beyond, a tie going to the even
  mantissa. The double 12345678901234567168 is the one that JavaScript prints as
  12345678901234567000.
\<close>

lemma decimal_parseInt_examples:
  "decimal_parseInt (js_ascii ''15'') = Number_value 15"
  "decimal_parseInt (js_ascii ''9007199254740992'') = Number_value 9007199254740992"
  "decimal_parseInt (js_ascii ''9007199254740993'') = Number_value 9007199254740992"
  "decimal_parseInt (js_ascii ''9007199254740995'') = Number_value 9007199254740996"
  "decimal_parseInt (js_ascii ''12345678901234567890'') = Number_value 12345678901234567168"
  by (simp_all add: decimal_parseInt_def decimal_value_def js_ascii_def nearest_double_def Let_def
      bit_length_numeral)

section \<open>The body text preview\<close>













section \<open>Faults during page inspection\<close>

lemma try_block_href_fault: "location_href p = Inl x \<Longrightarrow> try_block B p = Inl x"
  by (simp add: try_block_def js_bind_def Let_def)

lemma try_block_title_fault:
  "location_href p = Inr u \<Longrightarrow> document_title p = Inl x \<Longrightarrow> try_block B p = Inl x"
  by (simp add: try_block_def js_bind_def Let_def)















end
